theory Spec2Isabelle
  imports Complex_Main
begin

section \<open>JavaScript values\<close>

text \<open>
  The dashboard is JavaScript. A JavaScript number is a finite value, one of the two
  infinities, or NaN; finite values are modelled as reals (the comparisons and the
  rounding to an integer used by the dashboard are exact on doubles, and the one
  multiplication it performs takes its rounding as a parameter, see
  \<open>confidencePercent\<close>). Signed zeros are not distinguished.
\<close>

datatype number = Fin real | PosInfinity | NegInfinity | NaN

datatype jsvalue =
    JUndefined
  | JNull
  | JBoolean bool
  | JNumber number
  | JString string
  | JArray "jsvalue list"
  | JObject "(string \<times> jsvalue) list"
  | JFunction string

datatype exception = TypeError | Error jsvalue

text \<open>The relational operator \<open>a < b\<close> on numbers: false as soon as an operand is NaN.\<close>

fun less_than :: "number \<Rightarrow> number \<Rightarrow> bool" where
  "less_than NaN _ = False"
| "less_than _ NaN = False"
| "less_than (Fin x) (Fin y) = (x < y)"
| "less_than NegInfinity y = (y \<noteq> NegInfinity)"
| "less_than x PosInfinity = (x \<noteq> PosInfinity)"
| "less_than _ _ = False"

text \<open>
  Strict equality \<open>v === s\<close> against a string \<open>s\<close>, the only use the dashboard makes
  of \<open>===\<close> on review data: true exactly when \<open>v\<close> is that same string, with no
  coercion.
\<close>

definition strict_equals :: "jsvalue \<Rightarrow> string \<Rightarrow> bool" where
  "strict_equals v s = (v = JString s)"

text \<open>Truthiness, as \<open>||\<close> and \<open>if\<close> test it.\<close>

fun truthy :: "jsvalue \<Rightarrow> bool" where
  "truthy JUndefined = False"
| "truthy JNull = False"
| "truthy (JBoolean b) = b"
| "truthy (JNumber n) = (n \<noteq> NaN \<and> n \<noteq> Fin 0)"
| "truthy (JString s) = (s \<noteq> [])"
| "truthy (JArray _) = True"
| "truthy (JObject _) = True"
| "truthy (JFunction _) = True"

definition or_else :: "jsvalue \<Rightarrow> jsvalue \<Rightarrow> jsvalue" where
  "or_else a b = (if truthy a then a else b)"

text \<open>
  Reading a property of an object literal, \<open>obj[key]\<close>: the object's own property,
  else the property it inherits from \<open>Object.prototype\<close>, else \<open>undefined\<close>.
  \<open>Object_prototype\<close> lists what every object literal inherits: the built-in
  methods, as function objects, and the accessor \<open>__proto__\<close>, which yields the
  prototype object itself (it has no enumerable property of its own).
\<close>

definition Object_prototype :: "(string \<times> jsvalue) list" where
  "Object_prototype =
     [(''constructor'', JFunction ''Object''),
      (''hasOwnProperty'', JFunction ''hasOwnProperty''),
      (''isPrototypeOf'', JFunction ''isPrototypeOf''),
      (''propertyIsEnumerable'', JFunction ''propertyIsEnumerable''),
      (''toLocaleString'', JFunction ''toLocaleString''),
      (''toString'', JFunction ''toString''),
      (''valueOf'', JFunction ''valueOf''),
      (''__defineGetter__'', JFunction ''__defineGetter__''),
      (''__defineSetter__'', JFunction ''__defineSetter__''),
      (''__lookupGetter__'', JFunction ''__lookupGetter__''),
      (''__lookupSetter__'', JFunction ''__lookupSetter__''),
      (''__proto__'', JObject [])]"

definition get :: "(string \<times> jsvalue) list \<Rightarrow> string \<Rightarrow> jsvalue" where
  "get obj key =
     (case map_of obj key of
        Some v \<Rightarrow> v
      | None \<Rightarrow> (case map_of Object_prototype key of Some v \<Rightarrow> v | None \<Rightarrow> JUndefined))"

text \<open>
  \<open>Math.round\<close> rounds to the nearest integer, ties towards plus infinity;
  \<open>Math.min\<close> and \<open>Math.max\<close> return NaN as soon as an argument is NaN.
\<close>

fun Math_round :: "number \<Rightarrow> number" where
  "Math_round (Fin x) = Fin (of_int \<lfloor>x + 1 / 2\<rfloor>)"
| "Math_round n = n"

definition Math_min :: "number \<Rightarrow> number \<Rightarrow> number" where
  "Math_min a b = (if a = NaN \<or> b = NaN then NaN else if less_than b a then b else a)"

definition Math_max :: "number \<Rightarrow> number \<Rightarrow> number" where
  "Math_max a b = (if a = NaN \<or> b = NaN then NaN else if less_than a b then b else a)"

section \<open>The verdict-annotated review, as the dashboard receives it\<close>

text \<open>
  Of a review object the components below read \<open>rating\<close>, \<open>label\<close> and
  \<open>confidence\<close>. The label is an arbitrary JSON value, since the code compares it with
  \<open>===\<close>; \<open>rating\<close> and \<open>confidence\<close> are the numbers the arithmetic sees (a field
  that is missing, or a string that is no numeral, is NaN there).
\<close>

record review =
  rating :: number
  label :: jsvalue
  confidence :: number

section \<open>RatingChart.jsx: calculateDistribution\<close>

record bucket =
  name :: string
  genuine :: nat
  fake :: nat

text \<open>
  The object literal \<open>distribution\<close>, with its integer keys in the order in which
  \<open>Object.values\<close> enumerates them. The field \<open>rating\<close> of a bucket (its axis text)
  is called \<open>name\<close> here. The keys read from it are texts of numbers, none of which
  names an inherited property, so the buckets are kept in a typed list of their own.
\<close>

type_synonym distribution = "(int \<times> bucket) list"

definition initial_distribution :: distribution where
  "initial_distribution =
     [(1, \<lparr>name = ''1 Star'', genuine = 0, fake = 0\<rparr>),
      (2, \<lparr>name = ''2 Stars'', genuine = 0, fake = 0\<rparr>),
      (3, \<lparr>name = ''3 Stars'', genuine = 0, fake = 0\<rparr>),
      (4, \<lparr>name = ''4 Stars'', genuine = 0, fake = 0\<rparr>),
      (5, \<lparr>name = ''5 Stars'', genuine = 0, fake = 0\<rparr>)]"

text \<open>
  \<open>distribution[n]\<close>: the property whose key is the text of the number \<open>n\<close>. Only an
  integer can name one of the keys 1 to 5; for any other number (NaN among them) the
  lookup gives \<open>undefined\<close>, here \<open>None\<close>.
\<close>

definition property_key :: "number \<Rightarrow> int option" where
  "property_key n =
     (case n of Fin x \<Rightarrow> (if x = of_int \<lfloor>x\<rfloor> then Some \<lfloor>x\<rfloor> else None) | _ \<Rightarrow> None)"

definition get_property :: "distribution \<Rightarrow> number \<Rightarrow> (int \<times> bucket) option" where
  "get_property d n =
     (case property_key n of
        None \<Rightarrow> None
      | Some k \<Rightarrow> (case map_of d k of None \<Rightarrow> None | Some b \<Rightarrow> Some (k, b)))"

definition put_property :: "distribution \<Rightarrow> int \<Rightarrow> bucket \<Rightarrow> distribution" where
  "put_property d k b = map (\<lambda>(k', b'). if k' = k then (k', b) else (k', b')) d"

definition clampedRating :: "review \<Rightarrow> number" where
  "clampedRating r = Math_max (Fin 1) (Math_min (Fin 5) (Math_round (rating r)))"

text \<open>
  The body of the \<open>forEach\<close> callback. Reading \<open>.fake\<close> or \<open>.genuine\<close> of
  \<open>undefined\<close> throws a TypeError.
\<close>

definition count_review :: "review \<Rightarrow> distribution \<Rightarrow> exception + distribution" where
  "count_review r d =
     (case get_property d (clampedRating r) of
        None \<Rightarrow> Inl TypeError
      | Some (k, b) \<Rightarrow>
          if strict_equals (label r) ''fake''
          then Inr (put_property d k (b\<lparr>fake := fake b + 1\<rparr>))
          else Inr (put_property d k (b\<lparr>genuine := genuine b + 1\<rparr>)))"

fun forEach :: "review list \<Rightarrow> distribution \<Rightarrow> exception + distribution" where
  "forEach [] d = Inr d"
| "forEach (r # rs) d =
     (case count_review r d of Inl e \<Rightarrow> Inl e | Inr d' \<Rightarrow> forEach rs d')"

definition calculateDistribution :: "review list \<Rightarrow> exception + bucket list" where
  "calculateDistribution reviews =
     (case forEach reviews initial_distribution of
        Inl e \<Rightarrow> Inl e
      | Inr d \<Rightarrow> Inr (map snd d))"

text \<open>The heights of the two bar series, summed over the five buckets.\<close>

definition fake_total :: "bucket list \<Rightarrow> nat" where
  "fake_total bs = sum_list (map fake bs)"

definition genuine_total :: "bucket list \<Rightarrow> nat" where
  "genuine_total bs = sum_list (map genuine bs)"

section \<open>ResultsPage: the label filter and the severity colour\<close>

text \<open>\<open>reviewFilter\<close> is the page's state: \<open>'all'\<close>, \<open>'fake'\<close> or \<open>'genuine'\<close>.\<close>

definition filteredReviews :: "string \<Rightarrow> review list \<Rightarrow> review list" where
  "filteredReviews reviewFilter reviews =
     filter (\<lambda>r. if reviewFilter = ''all'' then True else strict_equals (label r) reviewFilter)
       reviews"

definition getFakePercentageColor :: "number \<Rightarrow> string" where
  "getFakePercentageColor percentage =
     (if less_than percentage (Fin 15) then ''text-green-600''
      else if less_than percentage (Fin 30) then ''text-yellow-600''
      else if less_than percentage (Fin 50) then ''text-orange-600''
      else ''text-red-600'')"

section \<open>FakeGenuineChart.jsx\<close>

text \<open>The constant \<open>total\<close> of the pie chart, the denominator of its tooltip.\<close>

definition FakeGenuineChart_total :: "nat \<Rightarrow> nat \<Rightarrow> nat" where
  "FakeGenuineChart_total fakeCount genuineCount = fakeCount + genuineCount"

section \<open>GradeBadge.jsx\<close>

definition gradeColors :: "(string \<times> jsvalue) list" where
  "gradeColors =
     [(''A'', JString ''bg-green-500''),
      (''B'', JString ''bg-lime-500''),
      (''C'', JString ''bg-yellow-500''),
      (''D'', JString ''bg-orange-500''),
      (''F'', JString ''bg-red-500''),
      (''N/A'', JString ''bg-gray-400'')]"

definition sizeClasses :: "(string \<times> jsvalue) list" where
  "sizeClasses =
     [(''small'', JString ''w-10 h-10 text-xl''),
      (''medium'', JString ''w-16 h-16 text-3xl''),
      (''large'', JString ''w-24 h-24 text-5xl'')]"

definition colorClass :: "string \<Rightarrow> jsvalue" where
  "colorClass grade = or_else (get gradeColors grade) (get gradeColors ''N/A'')"

definition sizeClass :: "string \<Rightarrow> jsvalue" where
  "sizeClass sz = or_else (get sizeClasses sz) (get sizeClasses ''large'')"

section \<open>ReviewCard.jsx\<close>

text \<open>
  The product of two numbers. On doubles the exact product of two finite factors is
  rounded to a double; \<open>rnd\<close> is that rounding (the identity in exact arithmetic).
  A product with an infinite factor is NaN when the other factor is zero, and the
  infinity of the product's sign otherwise.
\<close>

fun sign :: "number \<Rightarrow> int" where
  "sign (Fin x) = (if x < 0 then - 1 else if x = 0 then 0 else 1)"
| "sign PosInfinity = 1"
| "sign NegInfinity = - 1"
| "sign NaN = 0"

definition multiply :: "(real \<Rightarrow> real) \<Rightarrow> number \<Rightarrow> number \<Rightarrow> number" where
  "multiply rnd a b =
     (case (a, b) of
        (Fin x, Fin y) \<Rightarrow> Fin (rnd (x * y))
      | _ \<Rightarrow>
          if a = NaN \<or> b = NaN \<or> sign a * sign b = 0 then NaN
          else if 0 < sign a * sign b then PosInfinity else NegInfinity)"

definition isFake :: "review \<Rightarrow> bool" where
  "isFake r = strict_equals (label r) ''fake''"

definition confidencePercent :: "(real \<Rightarrow> real) \<Rightarrow> review \<Rightarrow> number" where
  "confidencePercent rnd r = Math_round (multiply rnd (confidence r) (Fin 100))"

section \<open>api.js\<close>

text \<open>
  What the axios call settles to: a response, or a rejection with an error object
  whose \<open>response\<close> is present when the server answered with an error status, whose
  \<open>request\<close> is present when the request went out, and whose \<open>message\<close> describes
  the failure.
\<close>

record axios_response =
  data :: jsvalue

record axios_error =
  response :: "axios_response option"
  request :: bool
  message :: jsvalue

datatype outcome = Resolved axios_response | Rejected axios_error

text \<open>
  \<open>data?.detail\<close>: the property \<open>detail\<close> of an object, \<open>undefined\<close> for \<open>null\<close> and
  \<open>undefined\<close> (through \<open>?.\<close>) and for every other value, which has no such property.
\<close>

definition detail :: "jsvalue \<Rightarrow> jsvalue" where
  "detail d = (case d of JObject props \<Rightarrow> get props ''detail'' | _ \<Rightarrow> JUndefined)"

text \<open>
  Each function takes what its HTTP request settles to. \<open>Error m\<close> is the exception
  \<open>new Error(m)\<close>.
\<close>

definition analyzeProduct :: "outcome \<Rightarrow> exception + jsvalue" where
  "analyzeProduct post =
     (case post of
        Resolved resp \<Rightarrow> Inr (data resp)
      | Rejected error \<Rightarrow>
          (case response error of
             Some resp \<Rightarrow> Inl (Error (or_else (detail (data resp)) (JString ''Analysis failed'')))
           | None \<Rightarrow>
               if request error
               then Inl (Error (JString ''Unable to reach the server. Please check your connection.''))
               else Inl (Error (or_else (message error) (JString ''An unexpected error occurred'')))))"

definition getDemoAnalysis :: "outcome \<Rightarrow> exception + jsvalue" where
  "getDemoAnalysis get_demo =
     (case get_demo of
        Resolved resp \<Rightarrow> Inr (data resp)
      | Rejected error \<Rightarrow> Inl (Error (JString ''Failed to load demo data'')))"

definition checkHealth :: "outcome \<Rightarrow> exception + jsvalue" where
  "checkHealth get_health =
     (case get_health of
        Resolved resp \<Rightarrow> Inr (data resp)
      | Rejected error \<Rightarrow> Inr (JObject [(''status'', JString ''unhealthy'')]))"

section \<open>The detection pipeline\<close>

text \<open>
  The dashboard displays what the detection pipeline (preprocessor, rule scorer,
  learned classifier, hybrid scorer, aggregator) computes on the server. The
  pipeline's own code is not part of the sources at hand; its definitions below
  follow the specification, each marked as such.
\<close>

text \<open>
  Modelled from the spec: the RawReview record of the data model (section 3).
\<close>

record raw_review =
  reviewer_name :: string
  star_rating :: int
  title :: string
  body_text :: string
  date :: string
  verified_purchase :: bool
  review_id :: "string option"

text \<open>
  Modelled from the spec: the input-defect rule of section 7, "rating outside 1-5:
  clamp rating into range".
\<close>

definition clamp_rating :: "int \<Rightarrow> int" where
  "clamp_rating r = max 1 (min 5 r)"

text \<open>
  Modelled from the spec: one heuristic check of the Rule Scorer, a
  (predicate, weight, reason code) triple (sections 4.2 and 9), over feature
  vectors of type \<open>'f\<close>.
\<close>

record 'f rule_check =
  predicate :: "'f \<Rightarrow> bool"
  weight :: real
  reason_code :: string

text \<open>
  Modelled from the spec: the pipeline's injected parts and tunable constants
  (section 9): the Preprocessor's extraction, which sees the review and its batch;
  the table of checks; the Learned Classifier, \<open>None\<close> when its artifact is
  unavailable (degraded mode); the two blend weights and the decision threshold.
\<close>

record 'f pipeline =
  extract_features :: "raw_review \<Rightarrow> raw_review list \<Rightarrow> 'f"
  checks :: "'f rule_check list"
  classifier :: "('f \<Rightarrow> real) option"
  rule_weight :: real
  model_weight :: real
  decision_threshold :: real

text \<open>
  Modelled from the spec: the clamp of the Rule Scorer of section 4.2, "each
  contributing a fixed weight to a cumulative suspicion score clamped to [0,1]; each
  triggered check appends its reason code".
\<close>

definition clamp01 :: "real \<Rightarrow> real" where
  "clamp01 x = max 0 (min 1 x)"

text \<open>
  Modelled from the spec: the checks of the table that fire on a feature vector, in
  the table's order (section 4.2).
\<close>

definition triggered :: "'f rule_check list \<Rightarrow> 'f \<Rightarrow> 'f rule_check list" where
  "triggered cs fv = filter (\<lambda>c. predicate c fv) cs"

text \<open>
  Modelled from the spec: the rule sub-score, the sum of the weights of the triggered
  checks, clamped to [0,1] (section 4.2).
\<close>

definition rule_score :: "'f rule_check list \<Rightarrow> 'f \<Rightarrow> real" where
  "rule_score cs fv = clamp01 (sum_list (map weight (triggered cs fv)))"

text \<open>
  Modelled from the spec: the reason codes of the triggered checks (section 4.2).
\<close>

definition rule_reasons :: "'f rule_check list \<Rightarrow> 'f \<Rightarrow> string list" where
  "rule_reasons cs fv = map reason_code (triggered cs fv)"

text \<open>
  Modelled from the spec: the blend of the Hybrid Scorer (section 4.4). With both
  sub-scores it is their weighted average, each weight taken as its share of the two
  (for weights that sum to 1 this is the plain weighted sum). "When the Learned
  Classifier is unavailable, confidence = rule sub-score alone": the model's weight
  goes to the rule score, the one source left, which then carries the whole weight
  whatever its configured weight is.
\<close>

definition blend :: "real \<Rightarrow> real \<Rightarrow> real \<Rightarrow> real option \<Rightarrow> real" where
  "blend wr wm r m =
     (case m of
        None \<Rightarrow> r
      | Some s \<Rightarrow> (wr * r + wm * s) / (wr + wm))"

text \<open>
  Modelled from the spec: the label of a Verdict. The Hybrid Scorer (section 4.4)
  assigns "fake if confidence \<ge> a fixed decision threshold, else genuine"; the
  reasons are the rule-triggered reason codes, with the generic pattern-based reason
  for a fake verdict that no rule supports.
\<close>

datatype verdict_label = Genuine | Fake

text \<open>
  Modelled from the spec: the Verdict record of the data model (section 3).
\<close>

record verdict =
  verdict_label :: verdict_label
  verdict_confidence :: real
  reasons :: "string list"
  source_id :: "string option"

text \<open>
  Modelled from the spec: the Hybrid Scorer's \<open>combine\<close> (section 4.4).
\<close>

definition combine :: "'f pipeline \<Rightarrow> real \<times> string list \<Rightarrow> real option \<Rightarrow> string option \<Rightarrow> verdict" where
  "combine p rule_subscore model_subscore rid =
     (let c = blend (rule_weight p) (model_weight p) (fst rule_subscore) model_subscore;
          l = (if decision_threshold p \<le> c then Fake else Genuine)
      in \<lparr>verdict_label = l,
          verdict_confidence = c,
          reasons = (if l = Fake \<and> snd rule_subscore = []
                     then [''pattern-based detection''] else snd rule_subscore),
          source_id = rid\<rparr>)"

text \<open>
  Modelled from the spec: the per-review flow of section 2, Preprocessor, then Rule
  Scorer and Learned Classifier, then Hybrid Scorer; and its run over a batch.
\<close>

definition score_review :: "'f pipeline \<Rightarrow> raw_review list \<Rightarrow> raw_review \<Rightarrow> verdict" where
  "score_review p batch rv =
     (let fv = extract_features p rv batch
      in combine p (rule_score (checks p) fv, rule_reasons (checks p) fv)
           (map_option (\<lambda>model. model fv) (classifier p)) (review_id rv))"

text \<open>
  Modelled from the spec: the verdicts of a batch, one per review, in the batch's
  order (section 2).
\<close>

definition verdicts :: "'f pipeline \<Rightarrow> raw_review list \<Rightarrow> verdict list" where
  "verdicts p batch = map (score_review p batch) batch"

text \<open>
  Modelled from the spec: the authenticity grade table of section 4.5, on the fake
  percentage.
\<close>

definition grade :: "real \<Rightarrow> string" where
  "grade pct =
     (if pct < 5 then ''A''
      else if pct < 15 then ''B''
      else if pct < 30 then ''C''
      else if pct < 50 then ''D''
      else ''F'')"

text \<open>
  Modelled from the spec: AggregateMetrics (section 3) and the Aggregator
  (section 4.5, and section 7 for the empty batch). Percentages and ratings are
  \<open>None\<close> where the specification says null. The fake percentage is kept to one
  decimal, ties rounded up. The summary text of a non-empty batch is a template over
  the metrics whose wording the specification leaves open; it is kept as the
  constructor \<open>Narrative\<close>.
\<close>

record aggregate_metrics =
  total_reviews :: nat
  fake_count :: nat
  genuine_count :: nat
  fake_percentage :: "real option"
  original_rating :: "real option"
  adjusted_rating :: "real option"
  rating_difference :: "real option"
  authenticity_grade :: string

text \<open>
  Modelled from the spec: the summary text (sections 4.5 and 7), as the case it
  reports.
\<close>

datatype summary = No_reviews_available | Narrative

text \<open>
  Modelled from the spec: "fake percentage (0-100, one decimal)" (section 3).
\<close>

definition one_decimal :: "real \<Rightarrow> real" where
  "one_decimal x = of_int \<lfloor>x * 10 + 1 / 2\<rfloor> / 10"

text \<open>Modelled from the spec: the unweighted mean of star ratings (section 3).\<close>

definition mean :: "int list \<Rightarrow> real" where
  "mean xs = of_int (sum_list xs) / of_nat (length xs)"

text \<open>Modelled from the spec: the Aggregator (sections 4.5 and 7).\<close>

definition aggregate :: "verdict list \<Rightarrow> raw_review list \<Rightarrow> aggregate_metrics \<times> summary" where
  "aggregate vs raw_reviews =
     (let n = length vs;
          fakes = length (filter (\<lambda>v. verdict_label v = Fake) vs);
          genuines = length (filter (\<lambda>v. verdict_label v = Genuine) vs);
          stars = map (\<lambda>rv. clamp_rating (star_rating rv)) raw_reviews;
          genuine_stars = map fst (filter (\<lambda>(s, v). verdict_label v = Genuine) (zip stars vs))
      in if n = 0
         then (\<lparr>total_reviews = 0, fake_count = 0, genuine_count = 0,
                 fake_percentage = None, original_rating = None, adjusted_rating = None,
                 rating_difference = None, authenticity_grade = ''N/A''\<rparr>,
               No_reviews_available)
         else
           (let pct = one_decimal (100 * of_nat fakes / of_nat n);
                adjusted = (if genuine_stars = [] then None else Some (mean genuine_stars))
            in (\<lparr>total_reviews = n, fake_count = fakes, genuine_count = genuines,
                  fake_percentage = Some pct,
                  original_rating = Some (mean stars),
                  adjusted_rating = adjusted,
                  rating_difference = map_option (\<lambda>a. mean stars - a) adjusted,
                  authenticity_grade = grade pct\<rparr>,
                Narrative)))"

text \<open>
  Modelled from the spec: the result object of section 6, "AggregateMetrics, ...,
  ordered list of Verdict-annotated reviews (each raw review plus its verdict fields
  merged for display), and the generated summary text", in the JSON form the
  dashboard reads: the label as the text \<open>fake\<close> or \<open>genuine\<close>.
\<close>

record analysis_result =
  metrics :: aggregate_metrics
  summary_text :: summary
  reviews :: "review list"

text \<open>
  Modelled from the spec: a raw review merged with its verdict for display (section
  6).
\<close>

definition annotate :: "raw_review \<Rightarrow> verdict \<Rightarrow> review" where
  "annotate rv v =
     \<lparr>rating = Fin (of_int (clamp_rating (star_rating rv))),
      label = JString (case verdict_label v of Fake \<Rightarrow> ''fake'' | Genuine \<Rightarrow> ''genuine''),
      confidence = Fin (verdict_confidence v)\<rparr>"

text \<open>Modelled from the spec: the entry point of section 6.\<close>

definition analyze :: "'f pipeline \<Rightarrow> raw_review list \<Rightarrow> analysis_result" where
  "analyze p batch =
     (let vs = verdicts p batch; (m, s) = aggregate vs batch
      in \<lparr>metrics = m, summary_text = s, reviews = map2 annotate batch vs\<rparr>)"

text \<open>
  Modelled from the spec: a sample pipeline with the default constants of section
  4.4 (blend weights 0.4 for the rules and 0.6 for the model, decision threshold
  0.5). The specification leaves the checks' weights and the classifier open; here
  the features are the verified-purchase flag and the length of the text, the checks
  are "unverified purchase" and "short generic text", and the classifier answers
  one half for every review.
\<close>

definition sample_pipeline :: "(bool \<times> nat) pipeline" where
  "sample_pipeline =
     \<lparr>extract_features = (\<lambda>rv batch. (verified_purchase rv, length (body_text rv))),
      checks =
        [\<lparr>predicate = (\<lambda>x. \<not> fst x), weight = 1 / 2, reason_code = ''unverified-purchase''\<rparr>,
         \<lparr>predicate = (\<lambda>x. snd x < 20), weight = 2 / 5, reason_code = ''short-generic-text''\<rparr>],
      classifier = Some (\<lambda>x. 1 / 2),
      rule_weight = 2 / 5,
      model_weight = 3 / 5,
      decision_threshold = 1 / 2\<rparr>"

text \<open>Modelled from the spec: a sample RawReview, unverified and short.\<close>

definition sample_review :: raw_review where
  "sample_review =
     \<lparr>reviewer_name = ''A. Buyer'', star_rating = 5, title = ''Great'',
      body_text = ''Great product!'', date = ''2025-01-01'', verified_purchase = False,
      review_id = Some ''R1''\<rparr>"

section \<open>Properties of the rating distribution\<close>

lemma clamp_int:
  "Math_max (Fin 1) (Math_min (Fin 5) (Fin (of_int m))) = Fin (of_int (max 1 (min 5 m)))"
  by (simp add: Math_max_def Math_min_def max_def min_def)

lemma clampedRating_range:
  assumes "rating r \<noteq> NaN"
  shows "\<exists>k. 1 \<le> k \<and> k \<le> 5 \<and> clampedRating r = Fin (of_int k)"
proof (cases "rating r")
  case (Fin x)
  let ?m = "\<lfloor>x + 1 / 2\<rfloor>"
  have "clampedRating r = Fin (of_int (max 1 (min 5 ?m)))"
    using Fin by (simp only: clampedRating_def Math_round.simps clamp_int)
  moreover have "1 \<le> max 1 (min 5 ?m) \<and> max 1 (min 5 ?m) \<le> 5" by simp
  ultimately show ?thesis by blast
next
  case PosInfinity
  then have "clampedRating r = Fin (of_int 5)"
    by (simp add: clampedRating_def Math_max_def Math_min_def)
  then show ?thesis by (intro exI[of _ 5]) simp
next
  case NegInfinity
  then have "clampedRating r = Fin (of_int 1)"
    by (simp add: clampedRating_def Math_max_def Math_min_def)
  then show ?thesis by (intro exI[of _ 1]) simp
next
  case NaN
  with assms show ?thesis by simp
qed

lemma property_key_int: "property_key (Fin (of_int k)) = Some k"
  by (simp add: property_key_def)

lemma map_fst_put_property: "map fst (put_property d k b) = map fst d"
  by (induction d) (auto simp: put_property_def)

lemma map_of_put_property:
  "map_of (put_property d k b) j = (if j = k then map_option (\<lambda>_. b) (map_of d j) else map_of d j)"
  by (induction d) (auto simp: put_property_def)

lemma put_property_absent: "k \<notin> fst ` set d \<Longrightarrow> put_property d k b = d"
  by (induction d) (auto simp: put_property_def)

lemma sum_put_property:
  fixes f :: "bucket \<Rightarrow> nat"
  assumes "distinct (map fst d)" "map_of d k = Some b0"
  shows "sum_list (map f (map snd (put_property d k b))) + f b0 = sum_list (map f (map snd d)) + f b"
  using assms
proof (induction d)
  case Nil
  then show ?case by simp
next
  case (Cons p d)
  obtain k' b' where p: "p = (k', b')" by (cases p)
  show ?case
  proof (cases "k' = k")
    case True
    then have "b' = b0" using Cons.prems p by simp
    moreover have "put_property d k b = d"
      using Cons.prems True p by (intro put_property_absent) simp
    moreover have "put_property (p # d) k b = (k, b) # put_property d k b"
      using True p by (simp add: put_property_def)
    ultimately show ?thesis using True p by simp
  next
    case False
    then have "map_of d k = Some b0" "distinct (map fst d)"
      using Cons.prems p by simp_all
    then have "sum_list (map f (map snd (put_property d k b))) + f b0 = sum_list (map f (map snd d)) + f b"
      using Cons.IH by simp
    moreover have "put_property (p # d) k b = p # put_property d k b"
      using False p by (simp add: put_property_def)
    ultimately show ?thesis by simp
  qed
qed

text \<open>What one pass of the callback does, whenever it does not throw.\<close>

lemma count_review_Inr:
  assumes "count_review r d = Inr d'"
  obtains k b where "clampedRating r = Fin (of_int k)" "map_of d k = Some b"
    "d' = put_property d k (if isFake r then b\<lparr>fake := fake b + 1\<rparr> else b\<lparr>genuine := genuine b + 1\<rparr>)"
proof -
  from assms obtain k b where g: "get_property d (clampedRating r) = Some (k, b)"
    by (auto simp: count_review_def split: option.splits)
  then have "property_key (clampedRating r) = Some k" "map_of d k = Some b"
    by (auto simp: get_property_def split: option.splits)
  moreover from this(1) have "clampedRating r = Fin (of_int k)"
    by (auto simp: property_key_def split: number.splits if_splits)
  moreover have "d' = put_property d k (if isFake r then b\<lparr>fake := fake b + 1\<rparr> else b\<lparr>genuine := genuine b + 1\<rparr>)"
    using assms g by (auto simp: count_review_def isFake_def)
  ultimately show thesis using that by blast
qed

lemma count_review_totals:
  assumes "distinct (map fst d)" "count_review r d = Inr d'"
  shows "map fst d' = map fst d"
    and "fake_total (map snd d') = fake_total (map snd d) + (if isFake r then 1 else 0)"
    and "genuine_total (map snd d') = genuine_total (map snd d) + (if isFake r then 0 else 1)"
proof -
  let ?upd = "\<lambda>b. if isFake r then b\<lparr>fake := fake b + 1\<rparr> else b\<lparr>genuine := genuine b + 1\<rparr>"
  from count_review_Inr [OF assms(2)] obtain k b
    where m: "map_of d k = Some b" and d': "d' = put_property d k (?upd b)" by metis
  show "map fst d' = map fst d" by (simp add: d' map_fst_put_property)
  have "sum_list (map fake (map snd d')) + fake b = sum_list (map fake (map snd d)) + fake (?upd b)"
    unfolding d' by (rule sum_put_property [OF assms(1) m])
  then show "fake_total (map snd d') = fake_total (map snd d) + (if isFake r then 1 else 0)"
    by (simp add: fake_total_def split: if_splits)
  have "sum_list (map genuine (map snd d')) + genuine b = sum_list (map genuine (map snd d)) + genuine (?upd b)"
    unfolding d' by (rule sum_put_property [OF assms(1) m])
  then show "genuine_total (map snd d') = genuine_total (map snd d) + (if isFake r then 0 else 1)"
    by (simp add: genuine_total_def split: if_splits)
qed

lemma count_review_total:
  assumes "map fst d = [1, 2, 3, 4, 5]" "rating r \<noteq> NaN"
  shows "\<exists>d'. count_review r d = Inr d'"
proof -
  from clampedRating_range [OF assms(2)] obtain k
    where k: "1 \<le> k" "k \<le> 5" "clampedRating r = Fin (of_int k)" by blast
  then have "k \<in> set (map fst d)" using assms(1) by (simp; presburger)
  then have "k \<in> fst ` set d" by simp
  then obtain b where "map_of d k = Some b"
    by (metis domD dom_map_of_conv_image_fst)
  then have "get_property d (clampedRating r) = Some (k, b)"
    using k by (simp add: get_property_def property_key_int)
  then show ?thesis by (simp add: count_review_def)
qed

lemma forEach_Inr:
  assumes "distinct (map fst d)" "forEach rs d = Inr d'"
  shows "map fst d' = map fst d
       \<and> fake_total (map snd d') = fake_total (map snd d) + length (filter isFake rs)
       \<and> genuine_total (map snd d') = genuine_total (map snd d) + length (filter (\<lambda>r. \<not> isFake r) rs)"
  using assms
proof (induction rs arbitrary: d)
  case Nil
  then show ?case by simp
next
  case (Cons r rs)
  from Cons.prems(2) obtain d1 where s: "count_review r d = Inr d1" and t: "forEach rs d1 = Inr d'"
    by (auto split: sum.splits)
  note c = count_review_totals [OF Cons.prems(1) s]
  have "distinct (map fst d1)" using c(1) Cons.prems(1) by simp
  from Cons.IH [OF this t] show ?case using c by simp
qed

lemma forEach_total:
  assumes "map fst d = [1, 2, 3, 4, 5]" "\<forall>r \<in> set rs. rating r \<noteq> NaN"
  shows "\<exists>d'. forEach rs d = Inr d'"
  using assms
proof (induction rs arbitrary: d)
  case Nil
  then show ?case by simp
next
  case (Cons r rs)
  from count_review_total [OF Cons.prems(1)] Cons.prems(2)
  obtain d1 where s: "count_review r d = Inr d1" by auto
  have "distinct (map fst d)" using Cons.prems(1) by simp
  from count_review_totals(1) [OF this s] have "map fst d1 = [1, 2, 3, 4, 5]"
    using Cons.prems(1) by simp
  from Cons.IH [OF this] Cons.prems(2) s show ?case by simp
qed

lemma keys_initial: "map fst initial_distribution = [1, 2, 3, 4, 5]"
  by (simp add: initial_distribution_def)

lemma totals_initial:
  "fake_total (map snd initial_distribution) = 0"
  "genuine_total (map snd initial_distribution) = 0"
  by (simp_all add: initial_distribution_def fake_total_def genuine_total_def)

lemma calculateDistribution_Inr:
  assumes "calculateDistribution rs = Inr bs"
  shows "length bs = 5"
    and "fake_total bs = length (filter isFake rs)"
    and "genuine_total bs = length (filter (\<lambda>r. \<not> isFake r) rs)"
proof -
  from assms obtain d where d: "forEach rs initial_distribution = Inr d" and bs: "bs = map snd d"
    by (auto simp: calculateDistribution_def split: sum.splits)
  have "distinct (map fst initial_distribution)" by (simp add: keys_initial)
  from forEach_Inr [OF this d] have
    k: "map fst d = map fst initial_distribution"
    and f: "fake_total (map snd d) = length (filter isFake rs)"
    and g: "genuine_total (map snd d) = length (filter (\<lambda>r. \<not> isFake r) rs)"
    by (simp_all add: totals_initial)
  have "length (map fst d) = length [1, 2, 3, 4, 5 :: int]"
    using k keys_initial by simp
  then have "length d = 5" by simp
  then show "length bs = 5" by (simp add: bs)
  show "fake_total bs = length (filter isFake rs)" using f bs by simp
  show "genuine_total bs = length (filter (\<lambda>r. \<not> isFake r) rs)" using g bs by simp
qed

lemma calculateDistribution_total:
  assumes "\<forall>r \<in> set rs. rating r \<noteq> NaN"
  shows "\<exists>bs. calculateDistribution rs = Inr bs"
proof -
  from forEach_total [OF keys_initial assms] obtain d
    where "forEach rs initial_distribution = Inr d" by blast
  then show ?thesis by (simp add: calculateDistribution_def)
qed

lemma length_filter_partition:
  "length (filter P xs) + length (filter (\<lambda>x. \<not> P x) xs) = length xs"
  by (induction xs) auto

text \<open>
  A rating that is no number at all (NaN, as a missing rating is to the arithmetic)
  names no bucket, and the callback throws.
\<close>

lemma calculateDistribution_NaN_rating:
  "calculateDistribution [\<lparr>rating = NaN, label = JString ''genuine'', confidence = Fin 1\<rparr>] = Inl TypeError"
  by (simp add: calculateDistribution_def count_review_def get_property_def property_key_def
      clampedRating_def Math_max_def Math_min_def)

section \<open>The claims\<close>

text \<open>
  C7. A review whose rating lies outside 1 to 5 is not rejected and does not reject
  its batch: the chart rounds the rating and clamps it with max(1, min(5, .)), so
  for every numeric rating (finite or infinite) the clamped rating is one of the
  integers 1 to 5, the callback does not throw, it adds one to exactly one series of
  exactly that bucket and leaves every other bucket as it was; and a batch whose
  ratings are all numeric yields the five buckets, with every review counted once.
\<close>

theorem rating_lands_in_one_bucket:
  "(rating r \<noteq> NaN \<and> map fst d = [1, 2, 3, 4, 5] \<longrightarrow>
      (\<exists>k b d'. 1 \<le> k \<and> k \<le> 5 \<and> clampedRating r = Fin (of_int k)
         \<and> map_of d k = Some b
         \<and> count_review r d = Inr d'
         \<and> map fst d' = map fst d
         \<and> map_of d' k = Some (if isFake r then b\<lparr>fake := fake b + 1\<rparr>
                                else b\<lparr>genuine := genuine b + 1\<rparr>)
         \<and> (\<forall>j. j \<noteq> k \<longrightarrow> map_of d' j = map_of d j)))
   \<and> ((\<forall>r \<in> set rs. rating r \<noteq> NaN) \<longrightarrow>
      (\<exists>bs. calculateDistribution rs = Inr bs \<and> length bs = 5
         \<and> fake_total bs + genuine_total bs = length rs))"
proof (intro conjI impI)
  assume a: "rating r \<noteq> NaN \<and> map fst d = [1, 2, 3, 4, 5]"
  then have a1: "rating r \<noteq> NaN" and a2: "map fst d = [1, 2, 3, 4, 5]" by simp_all
  from count_review_total [OF a2 a1] obtain d' where s: "count_review r d = Inr d'" ..
  from count_review_Inr [OF s] obtain k b
    where c: "clampedRating r = Fin (of_int k)" and m: "map_of d k = Some b"
      and d': "d' = put_property d k (if isFake r then b\<lparr>fake := fake b + 1\<rparr> else b\<lparr>genuine := genuine b + 1\<rparr>)"
    by metis
  from clampedRating_range [OF a1] c have "1 \<le> k \<and> k \<le> 5" by auto
  moreover have "map fst d' = map fst d" by (simp add: d' map_fst_put_property)
  moreover have "map_of d' k = Some (if isFake r then b\<lparr>fake := fake b + 1\<rparr> else b\<lparr>genuine := genuine b + 1\<rparr>)"
    unfolding d' by (simp add: map_of_put_property m)
  moreover have "\<forall>j. j \<noteq> k \<longrightarrow> map_of d' j = map_of d j"
    unfolding d' by (simp add: map_of_put_property)
  ultimately show "\<exists>k b d'. 1 \<le> k \<and> k \<le> 5 \<and> clampedRating r = Fin (of_int k)
         \<and> map_of d k = Some b
         \<and> count_review r d = Inr d'
         \<and> map fst d' = map fst d
         \<and> map_of d' k = Some (if isFake r then b\<lparr>fake := fake b + 1\<rparr>
                                else b\<lparr>genuine := genuine b + 1\<rparr>)
         \<and> (\<forall>j. j \<noteq> k \<longrightarrow> map_of d' j = map_of d j)"
    using c m s by blast
next
  assume a: "\<forall>r \<in> set rs. rating r \<noteq> NaN"
  from calculateDistribution_total [OF a] obtain bs
    where bs: "calculateDistribution rs = Inr bs" by blast
  from calculateDistribution_Inr [OF bs] length_filter_partition [of isFake rs]
  show "\<exists>bs. calculateDistribution rs = Inr bs \<and> length bs = 5
         \<and> fake_total bs + genuine_total bs = length rs"
    using bs by simp
qed

theorem rating_lands_in_one_bucket_witness:
  "rating \<lparr>rating = Fin 7, label = JNull, confidence = Fin 1\<rparr> \<noteq> NaN
   \<and> map fst initial_distribution = [1, 2, 3, 4, 5]
   \<and> clampedRating \<lparr>rating = Fin 7, label = JNull, confidence = Fin 1\<rparr> = Fin 5
   \<and> calculateDistribution
        [\<lparr>rating = Fin 7, label = JNull, confidence = Fin 1\<rparr>,
         \<lparr>rating = Fin (- 3), label = JString ''fake'', confidence = Fin 1\<rparr>]
      = Inr [\<lparr>name = ''1 Star'', genuine = 0, fake = 1\<rparr>,
             \<lparr>name = ''2 Stars'', genuine = 0, fake = 0\<rparr>,
             \<lparr>name = ''3 Stars'', genuine = 0, fake = 0\<rparr>,
             \<lparr>name = ''4 Stars'', genuine = 0, fake = 0\<rparr>,
             \<lparr>name = ''5 Stars'', genuine = 1, fake = 0\<rparr>]"
  using rating_lands_in_one_bucket
    [of "\<lparr>rating = Fin 7, label = JNull, confidence = Fin 1\<rparr>" initial_distribution
        "[\<lparr>rating = Fin 7, label = JNull, confidence = Fin 1\<rparr>,
          \<lparr>rating = Fin (- 3), label = JString ''fake'', confidence = Fin 1\<rparr>]"]
  by (simp add: calculateDistribution_def count_review_def get_property_def property_key_def
      put_property_def clampedRating_def Math_max_def Math_min_def strict_equals_def
      initial_distribution_def)

lemma filteredReviews_label:
  "s \<noteq> ''all'' \<Longrightarrow> filteredReviews s rs = filter (\<lambda>r. label r = JString s) rs"
  by (simp add: filteredReviews_def strict_equals_def)

lemma length_filter_split:
  "length (filter (\<lambda>x. \<not> P x) xs) =
     length (filter Q xs) + length (filter (\<lambda>x. \<not> P x \<and> \<not> Q x) xs)"
  if "\<And>x. Q x \<Longrightarrow> \<not> P x"
  using that by (induction xs) auto

text \<open>
  C9. Every review whose label is not exactly the string \<open>fake\<close> (a missing, null or
  unrecognised label included) is counted in the genuine series of the rating
  chart, while the label filter of the results page selects exact matches only. So
  the chart's genuine total is the number the filter \<open>genuine\<close> selects plus the
  number of reviews labelled neither \<open>fake\<close> nor \<open>genuine\<close>, and it does exceed
  the number of exactly-genuine reviews on some input.
\<close>

theorem non_fake_label_counts_as_genuine:
  "(calculateDistribution rs = Inr bs \<longrightarrow>
      fake_total bs = length (filter (\<lambda>r. label r = JString ''fake'') rs)
      \<and> genuine_total bs = length (filter (\<lambda>r. label r \<noteq> JString ''fake'') rs)
      \<and> genuine_total bs =
          length (filteredReviews ''genuine'' rs)
          + length (filter (\<lambda>r. label r \<noteq> JString ''fake'' \<and> label r \<noteq> JString ''genuine'') rs))
   \<and> filteredReviews ''fake'' rs = filter (\<lambda>r. label r = JString ''fake'') rs
   \<and> filteredReviews ''genuine'' rs = filter (\<lambda>r. label r = JString ''genuine'') rs
   \<and> filteredReviews ''all'' rs = rs
   \<and> (\<exists>rs' bs'. calculateDistribution rs' = Inr bs'
         \<and> length (filteredReviews ''genuine'' rs') < genuine_total bs')"
proof (intro conjI impI)
  assume a: "calculateDistribution rs = Inr bs"
  have f: "isFake = (\<lambda>r. label r = JString ''fake'')"
    by (simp add: isFake_def strict_equals_def fun_eq_iff)
  from calculateDistribution_Inr(2) [OF a]
  show "fake_total bs = length (filter (\<lambda>r. label r = JString ''fake'') rs)"
    by (simp add: f)
  from calculateDistribution_Inr(3) [OF a]
  show g: "genuine_total bs = length (filter (\<lambda>r. label r \<noteq> JString ''fake'') rs)"
    by (simp add: f)
  have "length (filter (\<lambda>r. \<not> label r = JString ''fake'') rs) =
          length (filter (\<lambda>r. label r = JString ''genuine'') rs)
          + length (filter (\<lambda>r. \<not> label r = JString ''fake'' \<and> \<not> label r = JString ''genuine'') rs)"
    by (rule length_filter_split) simp
  then show "genuine_total bs =
          length (filteredReviews ''genuine'' rs)
          + length (filter (\<lambda>r. label r \<noteq> JString ''fake'' \<and> label r \<noteq> JString ''genuine'') rs)"
    using g by (simp add: filteredReviews_label)
next
  show "filteredReviews ''fake'' rs = filter (\<lambda>r. label r = JString ''fake'') rs"
    by (simp add: filteredReviews_label)
  show "filteredReviews ''genuine'' rs = filter (\<lambda>r. label r = JString ''genuine'') rs"
    by (simp add: filteredReviews_label)
  show "filteredReviews ''all'' rs = rs"
    by (simp add: filteredReviews_def)
  let ?rs = "[\<lparr>rating = Fin 4, label = JNull, confidence = Fin 1\<rparr>]"
  let ?bs = "[\<lparr>name = ''1 Star'', genuine = 0, fake = 0\<rparr>,
              \<lparr>name = ''2 Stars'', genuine = 0, fake = 0\<rparr>,
              \<lparr>name = ''3 Stars'', genuine = 0, fake = 0\<rparr>,
              \<lparr>name = ''4 Stars'', genuine = 1, fake = 0\<rparr>,
              \<lparr>name = ''5 Stars'', genuine = 0, fake = 0\<rparr>]"
  have "calculateDistribution ?rs = Inr ?bs"
    by (simp add: calculateDistribution_def count_review_def get_property_def property_key_def
        put_property_def clampedRating_def Math_max_def Math_min_def strict_equals_def
        initial_distribution_def)
  moreover have "length (filteredReviews ''genuine'' ?rs) < genuine_total ?bs"
    by (simp add: filteredReviews_def strict_equals_def genuine_total_def)
  ultimately show "\<exists>rs' bs'. calculateDistribution rs' = Inr bs'
         \<and> length (filteredReviews ''genuine'' rs') < genuine_total bs'"
    by (intro exI conjI)
qed

theorem non_fake_label_counts_as_genuine_witness:
  "calculateDistribution
     [\<lparr>rating = Fin 5, label = JString ''fake'', confidence = Fin 1\<rparr>,
      \<lparr>rating = Fin 4, label = JString ''genuine'', confidence = Fin 1\<rparr>,
      \<lparr>rating = Fin 4, label = JUndefined, confidence = Fin 1\<rparr>,
      \<lparr>rating = Fin 2, label = JString ''suspicious'', confidence = Fin 1\<rparr>]
   = Inr [\<lparr>name = ''1 Star'', genuine = 0, fake = 0\<rparr>,
          \<lparr>name = ''2 Stars'', genuine = 1, fake = 0\<rparr>,
          \<lparr>name = ''3 Stars'', genuine = 0, fake = 0\<rparr>,
          \<lparr>name = ''4 Stars'', genuine = 2, fake = 0\<rparr>,
          \<lparr>name = ''5 Stars'', genuine = 0, fake = 1\<rparr>]
   \<and> genuine_total
        [\<lparr>name = ''1 Star'', genuine = 0, fake = 0\<rparr>,
         \<lparr>name = ''2 Stars'', genuine = 1, fake = 0\<rparr>,
         \<lparr>name = ''3 Stars'', genuine = 0, fake = 0\<rparr>,
         \<lparr>name = ''4 Stars'', genuine = 2, fake = 0\<rparr>,
         \<lparr>name = ''5 Stars'', genuine = 0, fake = 1\<rparr>] = 3
   \<and> length (filteredReviews ''genuine''
        [\<lparr>rating = Fin 5, label = JString ''fake'', confidence = Fin 1\<rparr>,
         \<lparr>rating = Fin 4, label = JString ''genuine'', confidence = Fin 1\<rparr>,
         \<lparr>rating = Fin 4, label = JUndefined, confidence = Fin 1\<rparr>,
         \<lparr>rating = Fin 2, label = JString ''suspicious'', confidence = Fin 1\<rparr>]) = 1"
  using non_fake_label_counts_as_genuine
    [of "[\<lparr>rating = Fin 5, label = JString ''fake'', confidence = Fin 1\<rparr>,
          \<lparr>rating = Fin 4, label = JString ''genuine'', confidence = Fin 1\<rparr>,
          \<lparr>rating = Fin 4, label = JUndefined, confidence = Fin 1\<rparr>,
          \<lparr>rating = Fin 2, label = JString ''suspicious'', confidence = Fin 1\<rparr>]"
        "[\<lparr>name = ''1 Star'', genuine = 0, fake = 0\<rparr>,
          \<lparr>name = ''2 Stars'', genuine = 1, fake = 0\<rparr>,
          \<lparr>name = ''3 Stars'', genuine = 0, fake = 0\<rparr>,
          \<lparr>name = ''4 Stars'', genuine = 2, fake = 0\<rparr>,
          \<lparr>name = ''5 Stars'', genuine = 0, fake = 1\<rparr>]"]
  by (simp add: calculateDistribution_def count_review_def get_property_def property_key_def
      put_property_def clampedRating_def Math_max_def Math_min_def strict_equals_def
      initial_distribution_def genuine_total_def filteredReviews_def)

text \<open>
  C10. \<open>checkHealth\<close> never throws: whatever its request settles to, it returns a
  value, the response data on success and the object \<open>{ status: 'unhealthy' }\<close> on
  any error; \<open>analyzeProduct\<close> and \<open>getDemoAnalysis\<close> return the response data on
  success and turn every failure into a thrown \<open>Error\<close>.
\<close>

theorem checkHealth_never_throws:
  "(\<exists>v. checkHealth settled = Inr v)
   \<and> checkHealth (Resolved resp) = Inr (data resp)
   \<and> checkHealth (Rejected err) = Inr (JObject [(''status'', JString ''unhealthy'')])
   \<and> analyzeProduct (Resolved resp) = Inr (data resp)
   \<and> (\<exists>m. analyzeProduct (Rejected err) = Inl (Error m))
   \<and> getDemoAnalysis (Resolved resp) = Inr (data resp)
   \<and> getDemoAnalysis (Rejected err) = Inl (Error (JString ''Failed to load demo data''))"
  by (cases settled)
     (simp_all add: checkHealth_def analyzeProduct_def getDemoAnalysis_def split: option.split)

lemma Math_round_range:
  assumes "0 \<le> y" "y \<le> 100"
  shows "0 \<le> \<lfloor>y + 1 / 2 :: real\<rfloor> \<and> \<lfloor>y + 1 / 2\<rfloor> \<le> 100"
proof
  from assms(1) show "0 \<le> \<lfloor>y + 1 / 2\<rfloor>" by simp
  from assms(2) have "y + 1 / 2 < 101" by simp
  then have "\<lfloor>y + 1 / 2\<rfloor> < 101" by (simp add: floor_less_iff)
  then show "\<lfloor>y + 1 / 2\<rfloor> \<le> 100" by simp
qed

text \<open>
  C8. For a review whose confidence lies between 0 and 1, the percentage shown on
  the review card, \<open>Math.round(confidence * 100)\<close>, is an integer between 0 and 100.
  This holds for every rounding of the product that is monotone and leaves 0 and
  100 unchanged, as rounding to the nearest double does and as exact arithmetic does.
\<close>

theorem confidencePercent_range:
  assumes "mono rnd" "rnd 0 = 0" "rnd 100 = 100"
    and "confidence r = Fin c" "0 \<le> c" "c \<le> 1"
  shows "\<exists>n::int. confidencePercent rnd r = Fin (of_int n) \<and> 0 \<le> n \<and> n \<le> 100"
proof -
  have lo: "0 \<le> c * 100" and hi: "c * 100 \<le> 100" using assms(5,6) by simp_all
  have "rnd 0 \<le> rnd (c * 100)" "rnd (c * 100) \<le> rnd 100"
    using monoD [OF assms(1) lo] monoD [OF assms(1) hi] by this+
  then have "0 \<le> rnd (c * 100)" "rnd (c * 100) \<le> 100"
    using assms(2,3) by simp_all
  from Math_round_range [OF this]
  have "0 \<le> \<lfloor>rnd (c * 100) + 1 / 2\<rfloor> \<and> \<lfloor>rnd (c * 100) + 1 / 2\<rfloor> \<le> 100" .
  moreover have "confidencePercent rnd r = Fin (of_int \<lfloor>rnd (c * 100) + 1 / 2\<rfloor>)"
    using assms(4) by (simp add: confidencePercent_def multiply_def)
  ultimately show ?thesis by blast
qed

theorem confidencePercent_range_witness:
  "mono (\<lambda>x::real. x) \<and> (0::real) \<le> 17 / 20 \<and> (17 / 20 :: real) \<le> 1
   \<and> confidencePercent (\<lambda>x. x) \<lparr>rating = Fin 5, label = JString ''fake'', confidence = Fin (17 / 20)\<rparr> = Fin 85"
proof -
  have m: "mono (\<lambda>x::real. x)" by (simp add: mono_def)
  from confidencePercent_range [OF m, of "\<lparr>rating = Fin 5, label = JString ''fake'', confidence = Fin (17 / 20)\<rparr>" "17 / 20"]
  have "\<exists>n::int. confidencePercent (\<lambda>x. x) \<lparr>rating = Fin 5, label = JString ''fake'', confidence = Fin (17 / 20)\<rparr> = Fin (of_int n) \<and> 0 \<le> n \<and> n \<le> 100"
    by simp
  moreover have "confidencePercent (\<lambda>x. x) \<lparr>rating = Fin 5, label = JString ''fake'', confidence = Fin (17 / 20)\<rparr> = Fin 85"
    by (simp add: confidencePercent_def multiply_def)
  ultimately show ?thesis using m by simp
qed

lemma get_own: "map_of obj key = Some v \<Longrightarrow> get obj key = v"
  by (simp add: get_def)

lemma colorClass_known:
  "colorClass ''A'' = JString ''bg-green-500''"
  "colorClass ''B'' = JString ''bg-lime-500''"
  "colorClass ''C'' = JString ''bg-yellow-500''"
  "colorClass ''D'' = JString ''bg-orange-500''"
  "colorClass ''F'' = JString ''bg-red-500''"
  "colorClass ''N/A'' = JString ''bg-gray-400''"
  by (simp_all add: colorClass_def get_def gradeColors_def or_else_def)

lemma colorClass_unrecognised:
  assumes "g \<notin> fst ` set gradeColors" "g \<notin> fst ` set Object_prototype"
  shows "colorClass g = JString ''bg-gray-400''"
proof -
  from assms have "map_of gradeColors g = None" "map_of Object_prototype g = None"
    by (simp_all add: map_of_eq_None_iff)
  then have "get gradeColors g = JUndefined" by (simp add: get_def)
  moreover have "get gradeColors ''N/A'' = JString ''bg-gray-400''"
    by (simp add: get_def gradeColors_def)
  ultimately show ?thesis by (simp add: colorClass_def or_else_def)
qed

lemma aggregate_empty:
  "aggregate [] [] =
     (\<lparr>total_reviews = 0, fake_count = 0, genuine_count = 0,
       fake_percentage = None, original_rating = None, adjusted_rating = None,
       rating_difference = None, authenticity_grade = ''N/A''\<rparr>,
      No_reviews_available)"
  by (simp add: aggregate_def)

lemma analyze_empty:
  "analyze p [] =
     \<lparr>metrics = \<lparr>total_reviews = 0, fake_count = 0, genuine_count = 0,
                 fake_percentage = None, original_rating = None, adjusted_rating = None,
                 rating_difference = None, authenticity_grade = ''N/A''\<rparr>,
      summary_text = No_reviews_available,
      reviews = []\<rparr>"
  by (simp add: analyze_def verdicts_def aggregate_empty)

text \<open>
  C3. A batch of zero reviews is a valid result, with total 0, no percentage, no
  ratings, grade \<open>N/A\<close> and the summary that no reviews were available (lemmas
  \<open>aggregate_empty\<close> and \<open>analyze_empty\<close>), and the badge shows the neutral colour
  for \<open>N/A\<close> and for every grade string that names no property at all (lemmas
  \<open>colorClass_known\<close> and \<open>colorClass_unrecognised\<close>). The badge does not show the
  neutral colour for every unrecognised grade string, though: a string that names a
  property which object literals inherit, such as \<open>constructor\<close>, makes
  \<open>gradeColors[grade]\<close> the inherited value, which is truthy, so the fallback to
  \<open>gradeColors['N/A']\<close> is not taken and the colour class is no class at all.
\<close>

theorem colorClass_inherited_property:
  "colorClass ''constructor'' = JFunction ''Object''
   \<and> colorClass ''constructor'' \<noteq> colorClass ''N/A''
   \<and> colorClass ''toString'' = JFunction ''toString''
   \<and> colorClass ''__proto__'' = JObject []"
  by (simp add: colorClass_def get_def gradeColors_def Object_prototype_def or_else_def)

lemma aggregate_grade:
  "fake_percentage (fst (aggregate vs raws)) = Some pct \<Longrightarrow>
   authenticity_grade (fst (aggregate vs raws)) = grade pct"
  by (auto simp: aggregate_def Let_def split: if_splits)

text \<open>
  C1. The grade is a function of the fake percentage whose buckets include their
  lower bound: below 5 is A, from 5 to below 15 is B, from 15 to below 30 is C, from
  30 to below 50 is D, 50 and above is F; so exactly 5 is B, exactly 15 is C, exactly
  30 is D and exactly 50 is F, and every batch whose fake percentage is \<open>pct\<close> is
  graded \<open>grade pct\<close>. The dashboard's colour tiers use the same bucketing at 15,
  30 and 50: green for the grades A and B, yellow for C, orange for D, red for F.
\<close>

theorem grade_boundaries:
  "(pct < 5 \<longrightarrow> grade pct = ''A'')
   \<and> (5 \<le> pct \<and> pct < 15 \<longrightarrow> grade pct = ''B'')
   \<and> (15 \<le> pct \<and> pct < 30 \<longrightarrow> grade pct = ''C'')
   \<and> (30 \<le> pct \<and> pct < 50 \<longrightarrow> grade pct = ''D'')
   \<and> (50 \<le> pct \<longrightarrow> grade pct = ''F'')
   \<and> grade 5 = ''B'' \<and> grade 15 = ''C'' \<and> grade 30 = ''D'' \<and> grade 50 = ''F''
   \<and> (fake_percentage (fst (aggregate vs raws)) = Some pct \<longrightarrow>
        authenticity_grade (fst (aggregate vs raws)) = grade pct)
   \<and> (getFakePercentageColor (Fin pct) = ''text-green-600'' \<longleftrightarrow> pct < 15)
   \<and> (getFakePercentageColor (Fin pct) = ''text-yellow-600'' \<longleftrightarrow> 15 \<le> pct \<and> pct < 30)
   \<and> (getFakePercentageColor (Fin pct) = ''text-orange-600'' \<longleftrightarrow> 30 \<le> pct \<and> pct < 50)
   \<and> (getFakePercentageColor (Fin pct) = ''text-red-600'' \<longleftrightarrow> 50 \<le> pct)
   \<and> (getFakePercentageColor (Fin pct) = ''text-green-600'' \<longleftrightarrow> grade pct = ''A'' \<or> grade pct = ''B'')
   \<and> (getFakePercentageColor (Fin pct) = ''text-yellow-600'' \<longleftrightarrow> grade pct = ''C'')
   \<and> (getFakePercentageColor (Fin pct) = ''text-orange-600'' \<longleftrightarrow> grade pct = ''D'')
   \<and> (getFakePercentageColor (Fin pct) = ''text-red-600'' \<longleftrightarrow> grade pct = ''F'')"
proof -
  have g: "(pct < 5 \<longrightarrow> grade pct = ''A'')
   \<and> (5 \<le> pct \<and> pct < 15 \<longrightarrow> grade pct = ''B'')
   \<and> (15 \<le> pct \<and> pct < 30 \<longrightarrow> grade pct = ''C'')
   \<and> (30 \<le> pct \<and> pct < 50 \<longrightarrow> grade pct = ''D'')
   \<and> (50 \<le> pct \<longrightarrow> grade pct = ''F'')"
    by (simp add: grade_def)
  have e: "grade 5 = ''B'' \<and> grade 15 = ''C'' \<and> grade 30 = ''D'' \<and> grade 50 = ''F''"
    by (simp add: grade_def)
  have c: "(getFakePercentageColor (Fin pct) = ''text-green-600'' \<longleftrightarrow> pct < 15)
   \<and> (getFakePercentageColor (Fin pct) = ''text-yellow-600'' \<longleftrightarrow> 15 \<le> pct \<and> pct < 30)
   \<and> (getFakePercentageColor (Fin pct) = ''text-orange-600'' \<longleftrightarrow> 30 \<le> pct \<and> pct < 50)
   \<and> (getFakePercentageColor (Fin pct) = ''text-red-600'' \<longleftrightarrow> 50 \<le> pct)"
    by (simp add: getFakePercentageColor_def)
  have gi: "(grade pct = ''A'' \<or> grade pct = ''B'' \<longleftrightarrow> pct < 15)
    \<and> (grade pct = ''C'' \<longleftrightarrow> 15 \<le> pct \<and> pct < 30)
    \<and> (grade pct = ''D'' \<longleftrightarrow> 30 \<le> pct \<and> pct < 50)
    \<and> (grade pct = ''F'' \<longleftrightarrow> 50 \<le> pct)"
    by (simp add: grade_def)
  from g e c gi aggregate_grade [of vs raws pct] show ?thesis by simp
qed

theorem grade_boundaries_witness:
  "fake_percentage (fst (aggregate
      (replicate 3 \<lparr>verdict_label = Fake, verdict_confidence = 9 / 10, reasons = [''unverified-purchase''], source_id = None\<rparr>
       @ replicate 17 \<lparr>verdict_label = Genuine, verdict_confidence = 1 / 10, reasons = [], source_id = None\<rparr>)
      (replicate 20 \<lparr>reviewer_name = ''A'', star_rating = 5, title = ''T'', body_text = ''B'', date = ''D'', verified_purchase = True, review_id = None\<rparr>))) = Some 15
   \<and> authenticity_grade (fst (aggregate
      (replicate 3 \<lparr>verdict_label = Fake, verdict_confidence = 9 / 10, reasons = [''unverified-purchase''], source_id = None\<rparr>
       @ replicate 17 \<lparr>verdict_label = Genuine, verdict_confidence = 1 / 10, reasons = [], source_id = None\<rparr>)
      (replicate 20 \<lparr>reviewer_name = ''A'', star_rating = 5, title = ''T'', body_text = ''B'', date = ''D'', verified_purchase = True, review_id = None\<rparr>))) = ''C''
   \<and> getFakePercentageColor (Fin 15) = ''text-yellow-600''"
proof -
  let ?vs = "replicate 3 \<lparr>verdict_label = Fake, verdict_confidence = 9 / 10, reasons = [''unverified-purchase''], source_id = None\<rparr>
       @ replicate 17 \<lparr>verdict_label = Genuine, verdict_confidence = 1 / 10, reasons = [], source_id = None\<rparr>"
  let ?raws = "replicate 20 \<lparr>reviewer_name = ''A'', star_rating = 5, title = ''T'', body_text = ''B'', date = ''D'', verified_purchase = True, review_id = None\<rparr>"
  have p: "fake_percentage (fst (aggregate ?vs ?raws)) = Some 15"
    by (simp add: aggregate_def Let_def one_decimal_def)
  from grade_boundaries [of 15 ?vs ?raws] p show ?thesis by simp
qed

section \<open>Properties of the pipeline\<close>

lemma clamp01_range: "0 \<le> clamp01 x \<and> clamp01 x \<le> 1"
  by (simp add: clamp01_def)

lemma rule_score_range: "0 \<le> rule_score cs x \<and> rule_score cs x \<le> 1"
  by (simp add: rule_score_def clamp01_range)

lemma blend_range:
  assumes "0 \<le> wr" "0 \<le> wm" "0 \<le> r" "r \<le> 1"
    and "\<And>s. m = Some s \<Longrightarrow> 0 \<le> s \<and> s \<le> 1"
  shows "0 \<le> blend wr wm r m \<and> blend wr wm r m \<le> 1"
proof (cases m)
  case None
  then have "blend wr wm r m = r"
    by (simp add: blend_def)
  then show ?thesis using assms(3,4) by simp
next
  case (Some s)
  then have s: "0 \<le> s" "s \<le> 1" using assms(5) by simp_all
  have b: "blend wr wm r m = (wr * r + wm * s) / (wr + wm)"
    using Some by (simp add: blend_def)
  have lo: "0 \<le> wr * r + wm * s" using assms(1,2,3) s(1) by simp
  have "wr * r \<le> wr * 1" "wm * s \<le> wm * 1"
    using assms(1,2,4) s(2) by (simp_all add: mult_left_le)
  then have hi: "wr * r + wm * s \<le> wr + wm" by simp
  have nn: "0 \<le> wr + wm" using assms(1,2) by simp
  show ?thesis
  proof (cases "wr + wm = 0")
    case True
    then show ?thesis by (simp add: b)
  next
    case False
    then have "0 < wr + wm" using nn by simp
    then show ?thesis using lo hi by (simp add: b)
  qed
qed

lemma blend_degraded: "blend wr wm r None = r"
  by (simp add: blend_def)

lemma blend_both: "wr + wm = 1 \<Longrightarrow> blend wr wm r (Some s) = wr * r + wm * s"
  by (simp add: blend_def)

lemma score_review_confidence:
  "verdict_confidence (score_review p batch rv) =
     blend (rule_weight p) (model_weight p)
       (rule_score (checks p) (extract_features p rv batch))
       (map_option (\<lambda>model. model (extract_features p rv batch)) (classifier p))"
  by (simp add: score_review_def combine_def Let_def)

lemma score_review_label:
  "verdict_label (score_review p batch rv) =
     (if decision_threshold p \<le> verdict_confidence (score_review p batch rv) then Fake else Genuine)"
  by (simp add: score_review_def combine_def Let_def)

text \<open>The sample pipeline on the sample review: an unverified, short review.\<close>

lemma sample_features:
  "extract_features sample_pipeline sample_review b = (False, 14)"
  by (simp add: sample_pipeline_def sample_review_def)

lemma sample_rule_score:
  "rule_score (checks sample_pipeline) (False, 14) = 9 / 10"
  by (simp add: sample_pipeline_def rule_score_def triggered_def clamp01_def)

lemma sample_confidence:
  "verdict_confidence (score_review sample_pipeline [sample_review] sample_review) = 33 / 50"
  by (simp add: score_review_confidence sample_features sample_rule_score)
     (simp add: sample_pipeline_def blend_def)

text \<open>
  C4. For every review the pipeline processes, the verdict's confidence lies in
  [0,1], and the label is fake exactly when the confidence is at least the decision
  threshold, genuine otherwise. The blend weights are not negative and the
  classifier, where there is one, answers with a probability.
\<close>

theorem verdict_confidence_and_label:
  assumes "0 \<le> rule_weight p" "0 \<le> model_weight p"
    and "\<forall>model x. classifier p = Some model \<longrightarrow> 0 \<le> model x \<and> model x \<le> 1"
    and "v \<in> set (verdicts p batch)"
  shows "0 \<le> verdict_confidence v \<and> verdict_confidence v \<le> 1
       \<and> (verdict_label v = Fake \<longleftrightarrow> decision_threshold p \<le> verdict_confidence v)
       \<and> (verdict_label v = Genuine \<longleftrightarrow> verdict_confidence v < decision_threshold p)"
proof -
  from assms(4) obtain rv where v: "v = score_review p batch rv"
    by (auto simp: verdicts_def)
  let ?x = "extract_features p rv batch"
  have "0 \<le> blend (rule_weight p) (model_weight p) (rule_score (checks p) ?x)
               (map_option (\<lambda>model. model ?x) (classifier p))
      \<and> blend (rule_weight p) (model_weight p) (rule_score (checks p) ?x)
               (map_option (\<lambda>model. model ?x) (classifier p)) \<le> 1"
  proof (rule blend_range [OF assms(1,2)])
    show "0 \<le> rule_score (checks p) ?x" "rule_score (checks p) ?x \<le> 1"
      by (simp_all add: rule_score_range)
    fix s assume "map_option (\<lambda>model. model ?x) (classifier p) = Some s"
    then obtain model where "classifier p = Some model" "s = model ?x" by auto
    then show "0 \<le> s \<and> s \<le> 1" using assms(3) by simp
  qed
  then have "0 \<le> verdict_confidence v \<and> verdict_confidence v \<le> 1"
    by (simp add: v score_review_confidence)
  moreover have "verdict_label v = Fake \<longleftrightarrow> decision_threshold p \<le> verdict_confidence v"
    unfolding v by (subst score_review_label) simp
  moreover have "verdict_label v = Genuine \<longleftrightarrow> verdict_confidence v < decision_threshold p"
    unfolding v by (subst score_review_label) (simp add: not_le)
  ultimately show ?thesis by simp
qed

theorem verdict_confidence_and_label_witness:
  "0 \<le> rule_weight sample_pipeline \<and> 0 \<le> model_weight sample_pipeline
   \<and> score_review sample_pipeline [sample_review] sample_review
        \<in> set (verdicts sample_pipeline [sample_review])
   \<and> verdict_confidence (score_review sample_pipeline [sample_review] sample_review) = 33 / 50
   \<and> verdict_label (score_review sample_pipeline [sample_review] sample_review) = Fake"
proof -
  have h1: "0 \<le> rule_weight sample_pipeline" and h2: "0 \<le> model_weight sample_pipeline"
    by (simp_all add: sample_pipeline_def)
  have h3: "\<forall>model x. classifier sample_pipeline = Some model \<longrightarrow> 0 \<le> model x \<and> model x \<le> 1"
    by (auto simp: sample_pipeline_def)
  have h4: "score_review sample_pipeline [sample_review] sample_review
        \<in> set (verdicts sample_pipeline [sample_review])"
    by (simp add: verdicts_def)
  have t: "decision_threshold sample_pipeline = 1 / 2" by (simp add: sample_pipeline_def)
  from verdict_confidence_and_label [OF h1 h2 h3 h4] sample_confidence t
  have "verdict_label (score_review sample_pipeline [sample_review] sample_review) = Fake"
    by simp
  with h1 h2 h4 sample_confidence show ?thesis by simp
qed

text \<open>
  C5. In degraded mode (no classifier) the confidence of every review is its rule
  sub-score alone, whatever the blend weights are, a rule weight of zero included:
  the model's weight goes to the rule score, and the label is decided by the rule
  score against the threshold. The confidence is not the deflated value that a zero
  model score under the unchanged weights would give: for a rule weight below 1 and
  a positive rule score it is strictly larger.
\<close>

theorem degraded_confidence_is_rule_score:
  assumes "classifier p = None"
  shows "verdict_confidence (score_review p batch rv) = rule_score (checks p) (extract_features p rv batch)
       \<and> map verdict_confidence (verdicts p batch) =
           map (\<lambda>rv. rule_score (checks p) (extract_features p rv batch)) batch
       \<and> (verdict_label (score_review p batch rv) = Fake \<longleftrightarrow>
            decision_threshold p \<le> rule_score (checks p) (extract_features p rv batch))
       \<and> (rule_weight p < 1 \<and> 0 < rule_score (checks p) (extract_features p rv batch) \<longrightarrow>
            rule_weight p * rule_score (checks p) (extract_features p rv batch)
              < verdict_confidence (score_review p batch rv))"
proof -
  have c: "verdict_confidence (score_review p batch rv) = rule_score (checks p) (extract_features p rv batch)" for rv
    using assms by (simp add: score_review_confidence blend_degraded)
  moreover have "map verdict_confidence (verdicts p batch) =
           map (\<lambda>rv. rule_score (checks p) (extract_features p rv batch)) batch"
    by (simp add: verdicts_def c)
  moreover have "verdict_label (score_review p batch rv) = Fake \<longleftrightarrow>
            decision_threshold p \<le> rule_score (checks p) (extract_features p rv batch)"
    by (subst score_review_label) (simp add: c)
  moreover have "rule_weight p < 1 \<and> 0 < rule_score (checks p) (extract_features p rv batch) \<longrightarrow>
            rule_weight p * rule_score (checks p) (extract_features p rv batch)
              < verdict_confidence (score_review p batch rv)"
    by (simp add: c)
  ultimately show ?thesis by simp
qed

theorem degraded_confidence_is_rule_score_witness:
  "classifier (sample_pipeline\<lparr>classifier := None, rule_weight := 0\<rparr>) = None
   \<and> rule_weight (sample_pipeline\<lparr>classifier := None, rule_weight := 0\<rparr>) = 0
   \<and> verdict_confidence
        (score_review (sample_pipeline\<lparr>classifier := None, rule_weight := 0\<rparr>)
           [sample_review] sample_review) = 9 / 10
   \<and> verdict_label
        (score_review (sample_pipeline\<lparr>classifier := None, rule_weight := 0\<rparr>)
           [sample_review] sample_review) = Fake
   \<and> rule_weight (sample_pipeline\<lparr>classifier := None, rule_weight := 0\<rparr>) * (9 / 10)
        < verdict_confidence
            (score_review (sample_pipeline\<lparr>classifier := None, rule_weight := 0\<rparr>)
               [sample_review] sample_review)"
proof -
  let ?p = "sample_pipeline\<lparr>classifier := None, rule_weight := 0\<rparr>"
  have h1: "classifier ?p = None" by simp
  have h2: "rule_weight ?p = 0" and h3: "rule_weight ?p < 1" by simp_all
  have r: "rule_score (checks ?p) (extract_features ?p sample_review [sample_review]) = 9 / 10"
    using sample_features sample_rule_score by simp
  have th: "decision_threshold ?p = 1 / 2" by (simp add: sample_pipeline_def)
  note t = degraded_confidence_is_rule_score [OF h1, of "[sample_review]" sample_review]
  have c: "verdict_confidence (score_review ?p [sample_review] sample_review) = 9 / 10"
    using t [THEN conjunct1] r by simp
  have l: "verdict_label (score_review ?p [sample_review] sample_review) = Fake"
    using t [THEN conjunct2, THEN conjunct2, THEN conjunct1] r th by simp
  have pos: "0 < rule_score (checks ?p) (extract_features ?p sample_review [sample_review])"
    using r by simp
  have "rule_weight ?p * rule_score (checks ?p) (extract_features ?p sample_review [sample_review])
          < verdict_confidence (score_review ?p [sample_review] sample_review)"
    by (rule mp [OF t [THEN conjunct2, THEN conjunct2, THEN conjunct2]]) (intro conjI h3 pos)
  then have "rule_weight ?p * (9 / 10)
          < verdict_confidence (score_review ?p [sample_review] sample_review)"
    by (simp only: r)
  with h1 h2 c l show ?thesis by (intro conjI)
qed

lemma verdict_label_cases: "(verdict_label v \<noteq> Fake) = (verdict_label v = Genuine)"
  by (cases "verdict_label v") simp_all

lemma aggregate_counts:
  "fake_count (fst (aggregate vs raws)) = length (filter (\<lambda>v. verdict_label v = Fake) vs)"
  "genuine_count (fst (aggregate vs raws)) = length (filter (\<lambda>v. verdict_label v = Genuine) vs)"
  "total_reviews (fst (aggregate vs raws)) = length vs"
  by (simp_all add: aggregate_def Let_def)

lemma counts_sum:
  "length (filter (\<lambda>v. verdict_label v = Fake) vs) + length (filter (\<lambda>v. verdict_label v = Genuine) vs)
     = length vs"
  using length_filter_partition [of "\<lambda>v. verdict_label v = Fake" vs]
  by (simp add: verdict_label_cases)

lemma isFake_annotate: "isFake (annotate rv v) = (verdict_label v = Fake)"
  by (cases "verdict_label v") (simp_all add: isFake_def annotate_def strict_equals_def)

lemma rating_annotate: "rating (annotate rv v) \<noteq> NaN"
  by (simp add: annotate_def)

lemma filter_map2_annotate:
  "length raws = length vs \<Longrightarrow>
   length (filter isFake (map2 annotate raws vs)) = length (filter (\<lambda>v. verdict_label v = Fake) vs)
   \<and> length (filter (\<lambda>r. \<not> isFake r) (map2 annotate raws vs))
       = length (filter (\<lambda>v. verdict_label v = Genuine) vs)"
  by (induction raws vs rule: list_induct2) (simp_all add: isFake_annotate verdict_label_cases)

lemma analyze_fields:
  "metrics (analyze p batch) = fst (aggregate (verdicts p batch) batch)"
  "reviews (analyze p batch) = map2 annotate batch (verdicts p batch)"
  by (simp_all add: analyze_def Let_def split: prod.split)

text \<open>
  C2. For every batch, fake count plus genuine count is the total review count,
  which is the length of the review list; the pie chart's total is that length; the
  rating chart, run on the annotated reviews, does not throw, and its fake and
  genuine series sum to the fake and genuine counts. On any review list on which
  the rating chart returns, the two series partition the list: every review is
  counted once, in the fake series when its label is \<open>fake\<close> and in the genuine
  series otherwise.
\<close>

theorem counts_partition_reviews:
  "fake_count (metrics (analyze p batch)) + genuine_count (metrics (analyze p batch))
     = total_reviews (metrics (analyze p batch))
   \<and> total_reviews (metrics (analyze p batch)) = length batch
   \<and> length (reviews (analyze p batch)) = length batch
   \<and> FakeGenuineChart_total (fake_count (metrics (analyze p batch)))
        (genuine_count (metrics (analyze p batch))) = length (reviews (analyze p batch))
   \<and> (\<exists>bs. calculateDistribution (reviews (analyze p batch)) = Inr bs
         \<and> fake_total bs = fake_count (metrics (analyze p batch))
         \<and> genuine_total bs = genuine_count (metrics (analyze p batch)))
   \<and> (calculateDistribution rs = Inr bs' \<longrightarrow>
         fake_total bs' + genuine_total bs' = length rs
         \<and> fake_total bs' = length (filter isFake rs)
         \<and> genuine_total bs' = length (filter (\<lambda>r. \<not> isFake r) rs))"
proof -
  let ?vs = "verdicts p batch"
  let ?m = "metrics (analyze p batch)"
  let ?rs = "reviews (analyze p batch)"
  have len: "length ?vs = length batch" by (simp add: verdicts_def)
  have m: "fake_count ?m = length (filter (\<lambda>v. verdict_label v = Fake) ?vs)"
    "genuine_count ?m = length (filter (\<lambda>v. verdict_label v = Genuine) ?vs)"
    "total_reviews ?m = length batch"
    by (simp_all add: analyze_fields aggregate_counts len)
  have sum: "fake_count ?m + genuine_count ?m = total_reviews ?m"
    using counts_sum [of ?vs] by (simp add: m len)
  have lr: "length ?rs = length batch" by (simp add: analyze_fields len)
  have "\<forall>r \<in> set ?rs. rating r \<noteq> NaN"
    by (auto simp: analyze_fields rating_annotate dest!: set_zip_leftD set_zip_rightD)
  from calculateDistribution_total [OF this] obtain bs
    where bs: "calculateDistribution ?rs = Inr bs" by blast
  from filter_map2_annotate [of batch ?vs] len
  have f: "length (filter isFake ?rs) = fake_count ?m"
    "length (filter (\<lambda>r. \<not> isFake r) ?rs) = genuine_count ?m"
    by (simp_all add: analyze_fields aggregate_counts)
  from calculateDistribution_Inr(2,3) [OF bs] f
  have "fake_total bs = fake_count ?m \<and> genuine_total bs = genuine_count ?m" by simp
  with bs have ex: "\<exists>bs. calculateDistribution ?rs = Inr bs
         \<and> fake_total bs = fake_count ?m \<and> genuine_total bs = genuine_count ?m"
    by (intro exI [of _ bs]) simp
  have gen: "calculateDistribution rs = Inr bs' \<longrightarrow>
         fake_total bs' + genuine_total bs' = length rs
         \<and> fake_total bs' = length (filter isFake rs)
         \<and> genuine_total bs' = length (filter (\<lambda>r. \<not> isFake r) rs)"
  proof
    assume a: "calculateDistribution rs = Inr bs'"
    from calculateDistribution_Inr(2,3) [OF a] length_filter_partition [of isFake rs]
    show "fake_total bs' + genuine_total bs' = length rs
         \<and> fake_total bs' = length (filter isFake rs)
         \<and> genuine_total bs' = length (filter (\<lambda>r. \<not> isFake r) rs)"
      by simp
  qed
  have pie: "FakeGenuineChart_total (fake_count ?m) (genuine_count ?m) = length ?rs"
    using sum m(3) lr by (simp add: FakeGenuineChart_total_def)
  from sum m(3) lr pie ex gen show ?thesis by (intro conjI)
qed

theorem counts_partition_reviews_witness:
  "calculateDistribution
     [\<lparr>rating = Fin 5, label = JString ''fake'', confidence = Fin (33 / 50)\<rparr>,
      \<lparr>rating = Fin 3, label = JString ''genuine'', confidence = Fin (1 / 5)\<rparr>]
   = Inr [\<lparr>name = ''1 Star'', genuine = 0, fake = 0\<rparr>,
          \<lparr>name = ''2 Stars'', genuine = 0, fake = 0\<rparr>,
          \<lparr>name = ''3 Stars'', genuine = 1, fake = 0\<rparr>,
          \<lparr>name = ''4 Stars'', genuine = 0, fake = 0\<rparr>,
          \<lparr>name = ''5 Stars'', genuine = 0, fake = 1\<rparr>]
   \<and> fake_total
         [\<lparr>name = ''1 Star'', genuine = 0, fake = 0\<rparr>,
          \<lparr>name = ''2 Stars'', genuine = 0, fake = 0\<rparr>,
          \<lparr>name = ''3 Stars'', genuine = 1, fake = 0\<rparr>,
          \<lparr>name = ''4 Stars'', genuine = 0, fake = 0\<rparr>,
          \<lparr>name = ''5 Stars'', genuine = 0, fake = 1\<rparr>]
     + genuine_total
         [\<lparr>name = ''1 Star'', genuine = 0, fake = 0\<rparr>,
          \<lparr>name = ''2 Stars'', genuine = 0, fake = 0\<rparr>,
          \<lparr>name = ''3 Stars'', genuine = 1, fake = 0\<rparr>,
          \<lparr>name = ''4 Stars'', genuine = 0, fake = 0\<rparr>,
          \<lparr>name = ''5 Stars'', genuine = 0, fake = 1\<rparr>] = 2
   \<and> reviews (analyze sample_pipeline [sample_review])
       = [\<lparr>rating = Fin 5, label = JString ''fake'', confidence = Fin (33 / 50)\<rparr>]
   \<and> fake_count (metrics (analyze sample_pipeline [sample_review])) = 1
   \<and> genuine_count (metrics (analyze sample_pipeline [sample_review])) = 0
   \<and> total_reviews (metrics (analyze sample_pipeline [sample_review])) = 1"
proof -
  let ?rs = "[\<lparr>rating = Fin 5, label = JString ''fake'', confidence = Fin (33 / 50)\<rparr>,
      \<lparr>rating = Fin 3, label = JString ''genuine'', confidence = Fin (1 / 5)\<rparr>]"
  let ?bs = "[\<lparr>name = ''1 Star'', genuine = 0, fake = 0\<rparr>,
          \<lparr>name = ''2 Stars'', genuine = 0, fake = 0\<rparr>,
          \<lparr>name = ''3 Stars'', genuine = 1, fake = 0\<rparr>,
          \<lparr>name = ''4 Stars'', genuine = 0, fake = 0\<rparr>,
          \<lparr>name = ''5 Stars'', genuine = 0, fake = 1\<rparr>]"
  have c: "calculateDistribution ?rs = Inr ?bs"
    by (simp add: calculateDistribution_def count_review_def get_property_def property_key_def
        put_property_def clampedRating_def Math_max_def Math_min_def strict_equals_def
        initial_distribution_def)
  have l: "verdict_label (score_review sample_pipeline [sample_review] sample_review) = Fake"
    by (subst score_review_label) (simp add: sample_confidence, simp add: sample_pipeline_def)
  have r: "reviews (analyze sample_pipeline [sample_review])
       = [\<lparr>rating = Fin 5, label = JString ''fake'', confidence = Fin (33 / 50)\<rparr>]"
    by (simp add: analyze_fields verdicts_def annotate_def l sample_confidence)
       (simp add: sample_review_def clamp_rating_def)
  have m: "fake_count (metrics (analyze sample_pipeline [sample_review])) = 1"
    "genuine_count (metrics (analyze sample_pipeline [sample_review])) = 0"
    by (simp_all add: analyze_fields aggregate_counts verdicts_def l)
  note t = counts_partition_reviews [of sample_pipeline "[sample_review]" ?rs ?bs]
  have "fake_total ?bs + genuine_total ?bs = length ?rs
         \<and> fake_total ?bs = length (filter isFake ?rs)
         \<and> genuine_total ?bs = length (filter (\<lambda>r. \<not> isFake r) ?rs)"
    by (rule mp [OF t [THEN conjunct2, THEN conjunct2, THEN conjunct2, THEN conjunct2,
          THEN conjunct2] c])
  then have two: "fake_total ?bs + genuine_total ?bs = 2" by simp
  have tot: "total_reviews (metrics (analyze sample_pipeline [sample_review])) = 1"
    using t [THEN conjunct1] m by simp
  show ?thesis by (intro conjI) (rule c two r m tot)+
qed

end
